theory Spec2Isabelle
  imports Main "HOL-Library.Sublist"
begin

section \<open>JavaScript values as the handler sees them\<close>

text \<open>
  The capability \<open>advancedTweetSearch\<close> exists twice in the repository: the handler with
  pagination (the file whose name is not known, \<open>src/unnamed/part_000\<close>) and the basic
  handler of \<open>src/index.ts\<close>, whose schema has no cursor. Both are embedded here; the first
  keeps the source's name \<open>run\<close>, the second is \<open>run_index\<close>.

  The provider's payload is untyped in the source (\<open>tweet: any\<close>), so it is modelled as the
  value \<open>JSON.parse\<close> builds, together with \<open>undefined\<close>, the result of reading a property
  that is not there. A string is the list of its code units. Numbers are the integers
  of the safe range, in which the decimal numeral is what JavaScript prints; fractions
  and larger numbers are not modelled. An object is the list of its own properties, read with \<open>map_of\<close>.
\<close>

datatype jsvalue =
    JUndefined
  | JNull
  | JBool bool
  | JNumber int
  | JString string
  | JArray "jsvalue list"
  | JObject "(string \<times> jsvalue) list"

text \<open>
  The exceptions the engine itself raises in the handler: reading a property of \<open>null\<close>,
  calling something that is not a function, and converting to a string an object that
  has no primitive value.
\<close>

datatype type_error = NullProperty | NotCallable | NoPrimitive

text \<open>Sequencing of two steps, the first of which may throw.\<close>

fun then_do :: "type_error + 'a \<Rightarrow> ('a \<Rightarrow> type_error + 'b) \<Rightarrow> type_error + 'b" where
  "then_do (Inl e) f = Inl e"
| "then_do (Inr x) f = f x"

text \<open>ToBoolean, as \<open>!x\<close>, \<open>x ? a : b\<close>, \<open>if (x)\<close> and \<open>x || y\<close> apply it.\<close>

fun truthy :: "jsvalue \<Rightarrow> bool" where
  "truthy JUndefined = False"
| "truthy JNull = False"
| "truthy (JBool b) = b"
| "truthy (JNumber n) = (n \<noteq> 0)"
| "truthy (JString s) = (s \<noteq> [])"
| "truthy (JArray xs) = True"
| "truthy (JObject kvs) = True"

text \<open>\<open>a || b\<close>\<close>

definition or_else :: "jsvalue \<Rightarrow> jsvalue \<Rightarrow> jsvalue" where
  "or_else a b = (if truthy a then a else b)"

text \<open>
  Reading a property. \<open>field v k\<close> is \<open>v.k\<close> for a value \<open>v\<close> that is neither \<open>null\<close> nor
  \<open>undefined\<close>, and \<open>v?.k\<close> for any value: an object gives its own property, everything
  else \<open>undefined\<close>. (The handler reads only names that no prototype defines: tweets,
  has_next_page, next_cursor, message, msg, author, userName, text, id, createdAt, url
  and the four counts. The \<open>length\<close> and \<open>substring\<close> of the tweet text are in
  \<open>tweetText\<close> below.) \<open>get v k\<close> is \<open>v.k\<close> for any value: it throws on \<open>null\<close> and
  \<open>undefined\<close>.
\<close>

fun field :: "jsvalue \<Rightarrow> string \<Rightarrow> jsvalue" where
  "field (JObject kvs) k = (case map_of kvs k of None \<Rightarrow> JUndefined | Some v \<Rightarrow> v)"
| "field v k = JUndefined"

fun get :: "jsvalue \<Rightarrow> string \<Rightarrow> type_error + jsvalue" where
  "get JUndefined k = Inl NullProperty"
| "get JNull k = Inl NullProperty"
| "get v k = Inr (field v k)"

text \<open>\<open>Array.isArray\<close>, and the elements \<open>forEach\<close> visits.\<close>

fun isArray :: "jsvalue \<Rightarrow> bool" where
  "isArray (JArray xs) = True"
| "isArray v = False"

fun elements :: "jsvalue \<Rightarrow> jsvalue list" where
  "elements (JArray xs) = xs"
| "elements v = []"

text \<open>The decimal numeral of a natural number.\<close>

fun digits :: "nat \<Rightarrow> string" where
  "digits n =
     (if n < 10 then [char_of (48 + n)]
      else digits (n div 10) @ [char_of (48 + n mod 10)])"

declare digits.simps [simp del]

text \<open>
  ToString, as a template literal applies it to each \<open>${...}\<close>. An array is joined with
  commas, \<open>null\<close> and \<open>undefined\<close> elements giving the empty string. An object of the
  payload inherits \<open>Object.prototype.toString\<close> and gives \<open>[object Object]\<close>, unless it
  has a property of its own named \<open>toString\<close>: a value of the payload is never a
  function, so OrdinaryToPrimitive skips it, \<open>valueOf\<close> returns the object itself (or is
  skipped as well), and the conversion throws a TypeError. A number is printed as its
  decimal numeral, which is what JavaScript prints for an integer of the safe range (up
  to 2^53 - 1 in absolute value); beyond it JavaScript prints the shortest numeral that
  reads back as the same double, which this definition does not give. The theorems
  below leave the numeral of a number of the payload open, or use a small number.
\<close>

primrec to_string :: "jsvalue \<Rightarrow> type_error + string"
  and join :: "jsvalue list \<Rightarrow> type_error + string" where
  "to_string JUndefined = Inr ''undefined''"
| "to_string JNull = Inr ''null''"
| "to_string (JBool b) = Inr (if b then ''true'' else ''false'')"
| "to_string (JNumber n) = Inr (if n < 0 then ''-'' @ digits (nat (- n)) else digits (nat n))"
| "to_string (JString s) = Inr s"
| "to_string (JArray xs) = join xs"
| "to_string (JObject kvs) =
     (if map_of kvs ''toString'' = None then Inr ''[object Object]'' else Inl NoPrimitive)"
| "join [] = Inr []"
| "join (x # xs) =
     (case (if x = JNull \<or> x = JUndefined then Inr [] else to_string x) of
        Inl e \<Rightarrow> Inl e
      | Inr s \<Rightarrow>
          (if xs = [] then Inr s
           else (case join xs of Inl e \<Rightarrow> Inl e | Inr t \<Rightarrow> Inr (s @ '','' @ t))))"

section \<open>The request, the outcome of the HTTP call, the environment\<close>

datatype query_type = Latest | Top

fun query_type_string :: "query_type \<Rightarrow> string" where
  "query_type_string Latest = ''Latest''"
| "query_type_string Top = ''Top''"

text \<open>
  The arguments after schema validation. The schema of \<open>src/index.ts\<close> has \<open>query\<close> and
  \<open>queryType\<close>; the handler with pagination adds the optional \<open>cursor\<close>.
\<close>

record args =
  query :: string
  queryType :: query_type

record cursor_args = args +
  cursor :: "string option"

text \<open>\<open>cursor || ''\<close> and the truth value of \<open>cursor\<close>: an absent and an empty cursor are both falsy.\<close>

fun cursor_or_empty :: "string option \<Rightarrow> string" where
  "cursor_or_empty None = []"
| "cursor_or_empty (Some c) = c"

fun cursor_truthy :: "string option \<Rightarrow> bool" where
  "cursor_truthy None = False"
| "cursor_truthy (Some c) = (c \<noteq> [])"

text \<open>The call \<open>axios.get(apiUrl, {params, headers})\<close>.\<close>

record get_request =
  url :: string
  params :: "(string \<times> string) list"
  headers :: "(string \<times> string) list"

text \<open>
  What the call gives back: \<open>response.data\<close> when the promise resolves; when it rejects,
  the error. An error that \<open>axios.isAxiosError\<close> recognises carries the response (status
  and body) if one was received and none otherwise; any other error has a message. A
  TypeError raised inside the \<open>try\<close> block is the third kind of value \<open>catch\<close> receives.
\<close>

record response =
  status :: nat
  data :: jsvalue

datatype thrown =
    AxiosError "response option"
  | TypeError type_error
  | Error string

datatype axios_result = Resolved jsvalue | Rejected thrown

text \<open>
  The environment of one invocation: the API key read at start-up, the provider behind
  \<open>axios.get\<close>, and the message text the engine gives its TypeErrors (ECMAScript leaves
  the text to the implementation).
\<close>

record runtime =
  twitterApiKey :: string
  axios_get :: "get_request \<Rightarrow> axios_result"
  type_error_message :: "type_error \<Rightarrow> string"

definition twitterApiBaseUrl :: string where
  "twitterApiBaseUrl = ''https://api.twitterapi.io''"

definition apiUrl :: string where
  "apiUrl = twitterApiBaseUrl @ ''/twitter/tweet/advanced_search''"

section \<open>Rendering one tweet\<close>

text \<open>
  \<open>tweetTextContent.substring(0, 250) + (tweetTextContent.length > 250 ? '...' : '')\<close>,
  where \<open>tweetTextContent = tweet.text || ''\<close> is a string or a truthy value of another
  type, which has no \<open>substring\<close> to call.
\<close>

fun tweetText :: "jsvalue \<Rightarrow> type_error + string" where
  "tweetText (JString s) = Inr (take 250 s @ (if length s > 250 then ''...'' else ''''))"
| "tweetText v = Inl NotCallable"

text \<open>
  The body of \<open>tweetsArray.forEach((tweet, index) => ...)\<close>, the same in both files: the
  six lines it appends to \<open>output\<close>, or the first exception, in the order of evaluation.
  Only \<open>tweet.author\<close> can throw for a \<open>null\<close> tweet; the reads after it are of a value
  that is not \<open>null\<close>.
\<close>

definition tweet_block :: "nat \<Rightarrow> jsvalue \<Rightarrow> type_error + string" where
  \<open>tweet_block index tweet =
     then_do (get tweet ''author'') (\<lambda>author.
     let authorUsername = or_else (field author ''userName'') (JString ''Unknown User'');
         tweetTextContent = or_else (field tweet ''text'') (JString '''')
     in
     then_do (tweetText tweetTextContent) (\<lambda>tweetText.
     then_do (to_string authorUsername) (\<lambda>a.
     then_do (to_string (field tweet ''id'')) (\<lambda>i.
     then_do (to_string (field tweet ''createdAt'')) (\<lambda>c.
     then_do (to_string (field tweet ''url'')) (\<lambda>u.
     then_do (to_string (or_else (field tweet ''likeCount'') (JNumber 0))) (\<lambda>likes.
     then_do (to_string (or_else (field tweet ''retweetCount'') (JNumber 0))) (\<lambda>retweets.
     then_do (to_string (or_else (field tweet ''replyCount'') (JNumber 0))) (\<lambda>replies.
     then_do (to_string (or_else (field tweet ''viewCount'') (JNumber 0))) (\<lambda>views.
       Inr (digits (index + 1) @ ''. **Author:** @'' @ a @ ''\<newline>''
          @ ''   **ID:** '' @ i @ ''\<newline>''
          @ ''   **Text:** '' @ tweetText @ ''\<newline>''
          @ ''   **Created:** '' @ c @ ''\<newline>''
          @ ''   **Link:** '' @ u @ ''\<newline>''
          @ ''   **Stats:** Likes: '' @ likes @ '', Retweets: '' @ retweets
          @ '', Replies: '' @ replies @ '', Views: '' @ views
          @ ''\<newline>\<newline>'')))))))))))\<close>

text \<open>The loop: \<open>output\<close> grows by one block per tweet, in the order of the array.\<close>

fun forEach_tweets :: "nat \<Rightarrow> jsvalue list \<Rightarrow> string \<Rightarrow> type_error + string" where
  "forEach_tweets index [] output = Inr output"
| "forEach_tweets index (tweet # rest) output =
     then_do (tweet_block index tweet) (\<lambda>block. forEach_tweets (Suc index) rest (output @ block))"

text \<open>The safeguard on the total length, the same in both files.\<close>

definition maxTotalOutputLength :: nat where
  "maxTotalOutputLength = 25000"

definition cap_output :: "string \<Rightarrow> string" where
  "cap_output output =
     (if length output > maxTotalOutputLength
      then take maxTotalOutputLength output
           @ ''\<newline>... [Total output truncated due to length limit]''
      else output)"

text \<open>
  \<open>error.response?.data?.msg || error.response?.data?.message || 'No specific message
  from API.'\<close>, the same in both files.
\<close>

definition apiMessage :: "response option \<Rightarrow> jsvalue" where
  "apiMessage r =
     (let d = (case r of None \<Rightarrow> JUndefined | Some resp \<Rightarrow> data resp)
      in or_else (or_else (field d ''msg'') (field d ''message''))
           (JString ''No specific message from API.''))"

text \<open>\<open>${status || 'N/A'}\<close>, where \<open>status\<close> is \<open>error.response?.status\<close>.\<close>

fun status_or_na :: "nat option \<Rightarrow> string" where
  "status_or_na None = ''N/A''"
| "status_or_na (Some s) = (if s = 0 then ''N/A'' else digits s)"

text \<open>\<open>${status}\<close> for the same \<open>status\<close>.\<close>

fun status_string :: "nat option \<Rightarrow> string" where
  "status_string None = ''undefined''"
| "status_string (Some s) = digits s"

section \<open>The handler with pagination\<close>

text \<open>
  The arguments of \<open>axios.get\<close>: the cursor parameter is \<open>cursor || ''\<close>. The logging
  calls of the handler (\<open>console.log\<close>, \<open>console.error\<close>, \<open>console.warn\<close>) are left out.
  Each of them prints one string, or a string and the error that was caught, and returns.
  The one call that is given values of the payload, \<open>console.error\<close> in the branch for a
  response without a sequence of tweets, formats them as the query inside its first
  argument demands; the theorem on that branch says for which queries and payloads this
  cannot throw.
\<close>

definition request :: "string \<Rightarrow> cursor_args \<Rightarrow> get_request" where
  "request key a =
     \<lparr>url = apiUrl,
      params = [(''query'', query a),
                (''queryType'', query_type_string (queryType a)),
                (''cursor'', cursor_or_empty (cursor a))],
      headers = [(''X-API-Key'', key), (''Accept'', ''application/json'')]\<rparr>"

text \<open>The heading of a report: the first page, or the page of a cursor, cut to 10 characters.\<close>

definition header :: "cursor_args \<Rightarrow> string" where
  \<open>header a =
     (let first = ''**Search Results for Query "'' @ query a @ ''" (Type: ''
                  @ query_type_string (queryType a) @ '') - First Page:**\<newline>\<newline>''
      in case cursor a of
           None \<Rightarrow> first
         | Some c \<Rightarrow>
             if c = [] then first
             else ''**Search Results for Query "'' @ query a @ ''" (Type: ''
                  @ query_type_string (queryType a)
                  @ '') - Page corresponding to cursor "'' @ take 10 c
                  @ ''...":**\<newline>\<newline>'')\<close>

text \<open>
  The report for a page that has tweets, before the safeguard on its length: the
  heading, one block per tweet, and the note on pagination.
\<close>

definition report :: "cursor_args \<Rightarrow> jsvalue \<Rightarrow> type_error + string" where
  \<open>report a responseData =
     (let tweetsArray = elements (field responseData ''tweets'');
          hasNextPage = field responseData ''has_next_page'';
          nextCursor = field responseData ''next_cursor''
      in
      then_do (forEach_tweets 0 tweetsArray (header a)) (\<lambda>output.
        if truthy hasNextPage \<and> truthy nextCursor then
          then_do (to_string nextCursor) (\<lambda>c.
            Inr (output
                 @ ''\<newline>*Note: More results available. Use this cursor for the next page: ''
                 @ c @ ''*\<newline>''))
        else Inr (output @ ''\<newline>*Note: End of results.*\<newline>'')))\<close>

text \<open>The \<open>try\<close> block after the call has resolved with \<open>responseData\<close>.\<close>

definition run_try :: "cursor_args \<Rightarrow> jsvalue \<Rightarrow> type_error + string" where
  \<open>run_try a responseData =
     (if \<not> truthy responseData \<or> \<not> isArray (field responseData ''tweets'') then
        (let errorMessage =
               or_else (or_else (field responseData ''message'') (field responseData ''msg''))
                 (JString ''Unknown API error or invalid data structure (missing tweets array).'')
         in then_do (to_string errorMessage) (\<lambda>m.
              Inr (''Error: Failed to fetch tweets. API Response: '' @ m)))
      else
        (let tweetsArray = elements (field responseData ''tweets'');
             hasNextPage = field responseData ''has_next_page'';
             nextCursor = field responseData ''next_cursor''
         in
         if length tweetsArray = 0 then
           (let message =
                  (if cursor_truthy (cursor a)
                   then ''No more tweets found on this page for the query: "'' @ query a @ ''".''
                   else ''No tweets found matching the search query: "'' @ query a @ ''".'')
            in
            if truthy hasNextPage \<and> truthy nextCursor then
              then_do (to_string nextCursor) (\<lambda>c.
                Inr (message
                     @ ''\<newline>*Note: The API indicates more results might exist. Use this cursor for the next page: ''
                     @ c @ ''*''))
            else Inr (message @ ''\<newline>*Note: End of results.*''))
         else
           then_do (report a responseData) (\<lambda>output. Inr (cap_output output))))\<close>

text \<open>The \<open>catch\<close> block. A template literal in it that throws is caught by nothing.\<close>

definition run_catch :: "runtime \<Rightarrow> cursor_args \<Rightarrow> thrown \<Rightarrow> type_error + string" where
  \<open>run_catch rt a error =
     (case error of
        AxiosError r \<Rightarrow>
          (let status = map_option response.status r;
               apiMessage = apiMessage r
           in
           if status = Some 401 \<or> status = Some 403 then
             Inr (''Error: Authentication failed. Please check if the TWITTER_API_IO_KEY is correct and valid. (Status: ''
                  @ status_string status @ '')'')
           else if status = Some 400 then
             (let potentialReason =
                    (if cursor_truthy (cursor a)
                     then ''The search query "'' @ query a
                          @ ''" or the provided cursor might be invalid.''
                     else ''The search query "'' @ query a
                          @ ''" might be invalid or improperly formatted.'')
              in then_do (to_string apiMessage) (\<lambda>m.
                   Inr (''Error: Bad request. '' @ potentialReason
                        @ '' Please check the query syntax and cursor value. (Status: 400, Message: ''
                        @ m @ '')'')))
           else if status = Some 404 then
             Inr ''Error: API endpoint not found or unavailable. Please check the API configuration. (Status: 404)''
           else if status = Some 429 then
             Inr (''Error: API rate limit exceeded. Please wait and try again later. (Status: ''
                  @ status_string status @ '')'')
           else
             then_do (to_string apiMessage) (\<lambda>m.
               Inr (''Error: An API error occurred. Status: '' @ status_or_na status
                    @ '', Message: '' @ m)))
      | TypeError e \<Rightarrow>
          Inr (''Error: An unexpected error occurred while searching tweets: ''
               @ type_error_message rt e)
      | Error message \<Rightarrow>
          Inr (''Error: An unexpected error occurred while searching tweets: '' @ message))\<close>

text \<open>
  The handler: \<open>Inr\<close> is the string it returns, \<open>Inl\<close> an exception that leaves it (the
  promise of \<open>run\<close> rejects, and the hosting framework receives the error).
\<close>

definition run :: "runtime \<Rightarrow> cursor_args \<Rightarrow> type_error + string" where
  "run rt a =
     (case axios_get rt (request (twitterApiKey rt) a) of
        Rejected error \<Rightarrow> run_catch rt a error
      | Resolved responseData \<Rightarrow>
          (case run_try a responseData of
             Inl e \<Rightarrow> run_catch rt a (TypeError e)
           | Inr output \<Rightarrow> Inr output))"

section \<open>The basic handler of src/index.ts\<close>

text \<open>No cursor: neither in the arguments nor among the parameters of the request.\<close>

definition request_index :: "string \<Rightarrow> args \<Rightarrow> get_request" where
  "request_index key a =
     \<lparr>url = apiUrl,
      params = [(''query'', query a),
                (''queryType'', query_type_string (queryType a))],
      headers = [(''X-API-Key'', key), (''Accept'', ''application/json'')]\<rparr>"

definition header_index :: "args \<Rightarrow> string" where
  \<open>header_index a =
     ''**Search Results for Query "'' @ query a @ ''" (Type: ''
     @ query_type_string (queryType a) @ ''):**\<newline>\<newline>''\<close>

text \<open>
  The report of the basic handler before the safeguard: a note when the provider signals
  a next page, which does not show the cursor, and nothing otherwise.
\<close>

definition report_index :: "args \<Rightarrow> jsvalue \<Rightarrow> type_error + string" where
  \<open>report_index a responseData =
     (let tweetsArray = elements (field responseData ''tweets'')
      in
      then_do (forEach_tweets 0 tweetsArray (header_index a)) (\<lambda>output.
        if truthy (field responseData ''has_next_page'')
           \<and> truthy (field responseData ''next_cursor'')
        then Inr (output
                  @ ''*Note: More results may be available (API indicates next page exists).*\<newline>'')
        else Inr output))\<close>

definition run_index_try :: "args \<Rightarrow> jsvalue \<Rightarrow> type_error + string" where
  \<open>run_index_try a responseData =
     (if \<not> truthy responseData \<or> \<not> isArray (field responseData ''tweets'') then
        (let errorMessage =
               or_else (or_else (field responseData ''message'') (field responseData ''msg''))
                 (JString ''Unknown API error or invalid data structure (missing tweets array).'')
         in then_do (to_string errorMessage) (\<lambda>m.
              Inr (''Error: Failed to fetch tweets. API Response: '' @ m)))
      else
        (let tweetsArray = elements (field responseData ''tweets'')
         in
         if length tweetsArray = 0 then
           Inr (''No tweets found matching the search query: "'' @ query a @ ''".'')
         else
           then_do (report_index a responseData) (\<lambda>output. Inr (cap_output output))))\<close>

definition run_index_catch :: "runtime \<Rightarrow> args \<Rightarrow> thrown \<Rightarrow> type_error + string" where
  \<open>run_index_catch rt a error =
     (case error of
        AxiosError r \<Rightarrow>
          (let status = map_option response.status r;
               apiMessage = apiMessage r
           in
           if status = Some 401 \<or> status = Some 403 then
             Inr (''Error: Authentication failed. Please check if the TWITTER_API_IO_KEY is correct and valid. (Status: ''
                  @ status_string status @ '')'')
           else if status = Some 400 then
             then_do (to_string apiMessage) (\<lambda>m.
               Inr (''Error: Bad request. The search query "'' @ query a
                    @ ''" might be invalid or improperly formatted. Please check the query syntax. (Status: 400, Message: ''
                    @ m @ '')''))
           else if status = Some 404 then
             Inr ''Error: API endpoint not found or unavailable. Please check the API configuration. (Status: 404)''
           else if status = Some 429 then
             Inr (''Error: API rate limit exceeded. Please wait and try again later. (Status: ''
                  @ status_string status @ '')'')
           else
             then_do (to_string apiMessage) (\<lambda>m.
               Inr (''Error: An API error occurred. Status: '' @ status_or_na status
                    @ '', Message: '' @ m)))
      | TypeError e \<Rightarrow>
          Inr (''Error: An unexpected error occurred while searching tweets: ''
               @ type_error_message rt e)
      | Error message \<Rightarrow>
          Inr (''Error: An unexpected error occurred while searching tweets: '' @ message))\<close>

definition run_index :: "runtime \<Rightarrow> args \<Rightarrow> type_error + string" where
  "run_index rt a =
     (case axios_get rt (request_index (twitterApiKey rt) a) of
        Rejected error \<Rightarrow> run_index_catch rt a error
      | Resolved responseData \<Rightarrow>
          (case run_index_try a responseData of
             Inl e \<Rightarrow> run_index_catch rt a (TypeError e)
           | Inr output \<Rightarrow> Inr output))"

section \<open>Sample inputs\<close>

text \<open>
  A provider that answers every request with the same outcome; a last page of one tweet
  that has only an id, and the same page with a next cursor; a query long enough for the
  report to pass the limit; a tweet whose text has 300 characters.
\<close>

abbreviation sample_runtime :: "axios_result \<Rightarrow> runtime" where
  "sample_runtime outcome \<equiv>
     \<lparr>twitterApiKey = ''key'', axios_get = (\<lambda>request. outcome),
      type_error_message = (\<lambda>e. ''TypeError'')\<rparr>"

abbreviation one_tweet_page :: jsvalue where
  "one_tweet_page \<equiv>
     JObject [(''tweets'', JArray [JObject [(''id'', JString ''1'')]]),
              (''has_next_page'', JBool False)]"

abbreviation long_query :: string where
  "long_query \<equiv> replicate 25000 (CHR ''q'')"


abbreviation next_page :: jsvalue where
  "next_page \<equiv>
     JObject [(''tweets'', JArray [JObject [(''id'', JString ''1'')]]),
              (''has_next_page'', JBool True),
              (''next_cursor'', JString ''abc'')]"

section \<open>Steps of the handlers\<close>

lemma then_do_Inr_iff: "then_do m f = Inr y \<longleftrightarrow> (\<exists>x. m = Inr x \<and> f x = Inr y)"
  by (cases m) simp_all

lemma digits_0: "digits 0 = ''0''"
  by code_simp


lemma run_resolved:
  "axios_get rt (request (twitterApiKey rt) a) = Resolved d \<Longrightarrow> run_try a d = Inr s
   \<Longrightarrow> run rt a = Inr s"
  by (simp add: run_def)

lemma run_index_resolved:
  "axios_get rt (request_index (twitterApiKey rt) a) = Resolved d
   \<Longrightarrow> run_index_try a d = Inr s \<Longrightarrow> run_index rt a = Inr s"
  by (simp add: run_index_def)

lemma run_try_report:
  "truthy d \<Longrightarrow> isArray (field d ''tweets'') \<Longrightarrow> elements (field d ''tweets'') \<noteq> []
   \<Longrightarrow> report a d = Inr r \<Longrightarrow> run_try a d = Inr (cap_output r)"
  by (simp add: run_try_def)

lemma run_index_try_report:
  "truthy d \<Longrightarrow> isArray (field d ''tweets'') \<Longrightarrow> elements (field d ''tweets'') \<noteq> []
   \<Longrightarrow> report_index a d = Inr r \<Longrightarrow> run_index_try a d = Inr (cap_output r)"
  by (simp add: run_index_try_def)

lemma tweet_block_id_only:
  \<open>tweet_block 0 (JObject [(''id'', JString ''1'')]) =
     Inr ''1. **Author:** @Unknown User\<newline>   **ID:** 1\<newline>   **Text:** \<newline>   **Created:** undefined\<newline>   **Link:** undefined\<newline>   **Stats:** Likes: 0, Retweets: 0, Replies: 0, Views: 0\<newline>\<newline>''\<close>
  by code_simp

lemma report_long_query:
  \<open>report \<lparr>query = long_query, queryType = Latest, cursor = None\<rparr> one_tweet_page =
     Inr (''**Search Results for Query "'' @ long_query
          @ ''" (Type: Latest) - First Page:**\<newline>\<newline>1. **Author:** @Unknown User\<newline>   **ID:** 1\<newline>   **Text:** \<newline>   **Created:** undefined\<newline>   **Link:** undefined\<newline>   **Stats:** Likes: 0, Retweets: 0, Replies: 0, Views: 0\<newline>\<newline>\<newline>*Note: End of results.*\<newline>'')\<close>
  by (simp add: report_def header_def tweet_block_id_only)

lemma report_index_one_tweet:
  \<open>report_index \<lparr>query = ''AI'', queryType = Top\<rparr> one_tweet_page =
     Inr ''**Search Results for Query "AI" (Type: Top):**\<newline>\<newline>1. **Author:** @Unknown User\<newline>   **ID:** 1\<newline>   **Text:** \<newline>   **Created:** undefined\<newline>   **Link:** undefined\<newline>   **Stats:** Likes: 0, Retweets: 0, Replies: 0, Views: 0\<newline>\<newline>''\<close>
  by (simp add: report_index_def header_index_def tweet_block_id_only)

section \<open>An empty cursor is an omitted cursor\<close>

lemma run_try_empty_cursor:
  "run_try (a\<lparr>cursor := Some ''''\<rparr>) d = run_try (a\<lparr>cursor := None\<rparr>) d"
  by (simp add: run_try_def report_def header_def Let_def)

lemma run_catch_empty_cursor:
  "run_catch rt (a\<lparr>cursor := Some ''''\<rparr>) e = run_catch rt (a\<lparr>cursor := None\<rparr>) e"
  by (cases e) (simp_all add: run_catch_def Let_def split del: if_split cong: if_cong)

text \<open>
  C10. In the handler with pagination, a cursor given as the empty string and a cursor
  left out give the same request to the provider and, whatever the provider answers, the
  same returned string; the cursor parameter of the request is the empty string and the
  heading is that of the first page. (The provider's answer is a function of the request
  inside \<open>rt\<close>, so the second equation covers every response and every failure.)
\<close>

theorem empty_cursor_as_omitted:
  \<open>request key (a\<lparr>cursor := Some ''''\<rparr>) = request key (a\<lparr>cursor := None\<rparr>)
   \<and> run rt (a\<lparr>cursor := Some ''''\<rparr>) = run rt (a\<lparr>cursor := None\<rparr>)
   \<and> run_try (a\<lparr>cursor := Some ''''\<rparr>) d = run_try (a\<lparr>cursor := None\<rparr>) d
   \<and> map_of (params (request key (a\<lparr>cursor := Some ''''\<rparr>))) ''cursor'' = Some ''''
   \<and> header (a\<lparr>cursor := Some ''''\<rparr>) =
       ''**Search Results for Query "'' @ query a @ ''" (Type: ''
       @ query_type_string (queryType a) @ '') - First Page:**\<newline>\<newline>''\<close>
proof -
  have req: "request key (a\<lparr>cursor := Some ''''\<rparr>) = request key (a\<lparr>cursor := None\<rparr>)" for key
    by (simp add: request_def)
  have "run rt (a\<lparr>cursor := Some ''''\<rparr>) = run rt (a\<lparr>cursor := None\<rparr>)"
    unfolding run_def req run_try_empty_cursor run_catch_empty_cursor ..
  then show ?thesis
    by (simp add: req run_try_empty_cursor) (simp add: request_def header_def)
qed

theorem empty_cursor_as_omitted_witness:
  \<open>run (sample_runtime (Resolved (JObject [(''tweets'', JArray [])])))
       \<lparr>query = ''AI'', queryType = Latest, cursor = Some ''''\<rparr> =
     Inr ''No tweets found matching the search query: "AI".\<newline>*Note: End of results.*''
   \<and> request ''key'' \<lparr>query = ''AI'', queryType = Latest, cursor = Some ''''\<rparr> =
       request ''key'' \<lparr>query = ''AI'', queryType = Latest, cursor = None\<rparr>\<close>
proof -
  have omitted:
    \<open>run (sample_runtime (Resolved (JObject [(''tweets'', JArray [])])))
         \<lparr>query = ''AI'', queryType = Latest, cursor = None\<rparr> =
       Inr ''No tweets found matching the search query: "AI".\<newline>*Note: End of results.*''\<close>
    by code_simp
  show ?thesis
    using omitted
      empty_cursor_as_omitted [where a = "\<lparr>query = ''AI'', queryType = Latest, cursor = None\<rparr>"
        and key = "''key''"
        and rt = "sample_runtime (Resolved (JObject [(''tweets'', JArray [])]))"]
    by simp
qed



section \<open>The cursor parameter of the request\<close>

text \<open>
  The provider enters \<open>run\<close> only through its answer to \<open>request\<close>: two environments that
  answer this one request alike give the same result.
\<close>

lemma run_depends_on_answer:
  "axios_get rt2 (request (twitterApiKey rt) a) = axios_get rt (request (twitterApiKey rt) a)
   \<Longrightarrow> twitterApiKey rt2 = twitterApiKey rt
   \<Longrightarrow> type_error_message rt2 = type_error_message rt
   \<Longrightarrow> run rt2 a = run rt a"
  by (cases "axios_get rt (request (twitterApiKey rt) a)")
     (auto simp add: run_def run_catch_def split: thrown.splits sum.splits)

text \<open>
  C5, as amended. In the handler with pagination the request always has a cursor
  parameter, \<open>cursor || ''\<close>: the empty string when the caller omits the cursor. The basic
  handler of \<open>src/index.ts\<close>, whose schema has no cursor, sends \<open>query\<close> and \<open>queryType\<close>
  only: its request has no cursor parameter.
\<close>

theorem cursor_parameter:
  "(cursor a = None \<longrightarrow> map_of (params (request key a)) ''cursor'' = Some '''')
   \<and> map_of (params (request key a)) ''cursor'' = Some (cursor_or_empty (cursor a))
   \<and> map_of (params (request_index key b)) ''cursor'' = None"
  by (simp add: request_def request_index_def)

theorem cursor_parameter_witness:
  "map_of (params (request ''key'' \<lparr>query = ''AI'', queryType = Latest, cursor = None\<rparr>)) ''cursor''
     = Some ''''
   \<and> map_of (params (request_index ''key'' \<lparr>query = ''AI'', queryType = Latest\<rparr>)) ''cursor'' = None"
  using cursor_parameter [where a = "\<lparr>query = ''AI'', queryType = Latest, cursor = None\<rparr>"
      and key = "''key''" and b = "\<lparr>query = ''AI'', queryType = Latest\<rparr>"]
  by simp

text \<open>
  The claim as stated fails on the basic handler: for the query \<open>AI\<close> its request carries
  no cursor parameter at all.
\<close>

theorem cursor_parameter_counterexample:
  "params (request_index ''key'' \<lparr>query = ''AI'', queryType = Latest\<rparr>) =
     [(''query'', ''AI''), (''queryType'', ''Latest'')]
   \<and> map_of (params (request_index ''key'' \<lparr>query = ''AI'', queryType = Latest\<rparr>)) ''cursor'' = None"
  by (simp add: request_index_def)

section \<open>A page without tweets\<close>

lemma field_array_truthy: "field d k = JArray xs \<Longrightarrow> truthy d"
  by (cases d) simp_all

lemma run_try_empty_page:
  \<open>field d ''tweets'' = JArray [] \<Longrightarrow>
   run_try a d =
     (if truthy (field d ''has_next_page'') \<and> truthy (field d ''next_cursor'') then
        then_do (to_string (field d ''next_cursor'')) (\<lambda>c.
          Inr ((if cursor_truthy (cursor a)
                then ''No more tweets found on this page for the query: "'' @ query a @ ''".''
                else ''No tweets found matching the search query: "'' @ query a @ ''".'')
               @ ''\<newline>*Note: The API indicates more results might exist. Use this cursor for the next page: ''
               @ c @ ''*''))
      else Inr ((if cursor_truthy (cursor a)
                then ''No more tweets found on this page for the query: "'' @ query a @ ''".''
                else ''No tweets found matching the search query: "'' @ query a @ ''".'')
               @ ''\<newline>*Note: End of results.*''))\<close>
  using field_array_truthy [of d "''tweets''" "[]"]
  by (simp add: run_try_def Let_def split del: if_split cong: if_cong)

lemma run_index_try_empty_page:
  \<open>field d ''tweets'' = JArray [] \<Longrightarrow>
   run_index_try a d = Inr (''No tweets found matching the search query: "'' @ query a @ ''".'')\<close>
  using field_array_truthy [of d "''tweets''" "[]"]
  by (simp add: run_index_try_def)

text \<open>
  C6, as amended. When the provider's \<open>tweets\<close> is the empty sequence, the handler with
  pagination returns one of two sentences, "No tweets found matching the search query"
  without a cursor (absent or empty) and "No more tweets found on this page for the
  query" with one, followed by a note: the provider's next cursor when \<open>has_next_page\<close>
  and \<open>next_cursor\<close> are both truthy, "End of results." otherwise. The basic handler
  returns the first sentence alone, with no note.
\<close>

theorem empty_page_report:
  \<open>(axios_get rt (request (twitterApiKey rt) a) = Resolved d \<and> field d ''tweets'' = JArray []
     \<longrightarrow>
       (\<not> (truthy (field d ''has_next_page'') \<and> truthy (field d ''next_cursor''))
        \<longrightarrow> run rt a =
              Inr ((if cursor_truthy (cursor a)
                    then ''No more tweets found on this page for the query: "'' @ query a @ ''".''
                    else ''No tweets found matching the search query: "'' @ query a @ ''".'')
                   @ ''\<newline>*Note: End of results.*''))
     \<and> (truthy (field d ''has_next_page'') \<and> truthy (field d ''next_cursor'')
          \<and> to_string (field d ''next_cursor'') = Inr c
        \<longrightarrow> run rt a =
              Inr ((if cursor_truthy (cursor a)
                    then ''No more tweets found on this page for the query: "'' @ query a @ ''".''
                    else ''No tweets found matching the search query: "'' @ query a @ ''".'')
                   @ ''\<newline>*Note: The API indicates more results might exist. Use this cursor for the next page: ''
                   @ c @ ''*'')))
   \<and> (axios_get rt' (request_index (twitterApiKey rt') b) = Resolved d'
        \<and> field d' ''tweets'' = JArray []
      \<longrightarrow> run_index rt' b =
            Inr (''No tweets found matching the search query: "'' @ query b @ ''".''))\<close>
  by (simp add: run_def run_index_def run_try_empty_page run_index_try_empty_page)


theorem empty_page_report_witness:
  \<open>run (sample_runtime (Resolved (JObject [(''tweets'', JArray []), (''has_next_page'', JBool True),
                                            (''next_cursor'', JString ''abc'')])))
       \<lparr>query = ''AI'', queryType = Latest, cursor = Some ''xyz''\<rparr> =
     Inr ''No more tweets found on this page for the query: "AI".\<newline>*Note: The API indicates more results might exist. Use this cursor for the next page: abc*''
   \<and> run (sample_runtime (Resolved (JObject [(''tweets'', JArray [])])))
       \<lparr>query = ''AI'', queryType = Latest, cursor = None\<rparr> =
     Inr ''No tweets found matching the search query: "AI".\<newline>*Note: End of results.*''\<close>
  using empty_page_report [where rt = "sample_runtime (Resolved (JObject [(''tweets'', JArray []),
          (''has_next_page'', JBool True), (''next_cursor'', JString ''abc'')]))"
      and a = "\<lparr>query = ''AI'', queryType = Latest, cursor = Some ''xyz''\<rparr>"
      and d = "JObject [(''tweets'', JArray []), (''has_next_page'', JBool True),
                        (''next_cursor'', JString ''abc'')]"
      and c = "''abc''"]
    empty_page_report [where rt = "sample_runtime (Resolved (JObject [(''tweets'', JArray [])]))"
      and a = "\<lparr>query = ''AI'', queryType = Latest, cursor = None\<rparr>"
      and d = "JObject [(''tweets'', JArray [])]"]
  by simp

text \<open>
  The claim as stated fails on the basic handler: the provider signals a next page, and
  the returned string has no trailing note.
\<close>

theorem empty_page_report_counterexample:
  \<open>run_index (sample_runtime (Resolved (JObject [(''tweets'', JArray []),
        (''has_next_page'', JBool True), (''next_cursor'', JString ''abc'')])))
       \<lparr>query = ''AI'', queryType = Latest\<rparr> =
     Inr ''No tweets found matching the search query: "AI".''\<close>
  by code_simp

section \<open>The safeguard on the length of the report\<close>

text \<open>
  C3, as amended. When the provider's page has tweets and the report renders to \<open>r\<close>, the
  handler returns \<open>r\<close> unchanged if it has at most 25,000 characters, and otherwise the
  first 25,000 characters of \<open>r\<close> followed by the fixed notice; this holds for the handler
  with pagination and for the basic one. The report of a page without tweets is returned
  before the safeguard: both handlers return it whole, whatever its length.
\<close>

theorem output_length_cap:
  \<open>(axios_get rt (request (twitterApiKey rt) a) = Resolved d \<and> truthy d
      \<and> isArray (field d ''tweets'') \<and> elements (field d ''tweets'') \<noteq> []
      \<and> report a d = Inr r
    \<longrightarrow> run rt a =
          Inr (if length r > 25000
               then take 25000 r @ ''\<newline>... [Total output truncated due to length limit]''
               else r))
   \<and> (axios_get rt' (request_index (twitterApiKey rt') b) = Resolved d' \<and> truthy d'
      \<and> isArray (field d' ''tweets'') \<and> elements (field d' ''tweets'') \<noteq> []
      \<and> report_index b d' = Inr r'
    \<longrightarrow> run_index rt' b =
          Inr (if length r' > 25000
               then take 25000 r' @ ''\<newline>... [Total output truncated due to length limit]''
               else r'))
   \<and> (axios_get rt (request (twitterApiKey rt) a) = Resolved d \<and> field d ''tweets'' = JArray []
        \<and> \<not> (truthy (field d ''has_next_page'') \<and> truthy (field d ''next_cursor''))
      \<longrightarrow> run rt a =
            Inr ((if cursor_truthy (cursor a)
                  then ''No more tweets found on this page for the query: "'' @ query a @ ''".''
                  else ''No tweets found matching the search query: "'' @ query a @ ''".'')
                 @ ''\<newline>*Note: End of results.*''))
   \<and> (axios_get rt (request (twitterApiKey rt) a) = Resolved d \<and> field d ''tweets'' = JArray []
        \<and> truthy (field d ''has_next_page'') \<and> truthy (field d ''next_cursor'')
        \<and> to_string (field d ''next_cursor'') = Inr c
      \<longrightarrow> run rt a =
            Inr ((if cursor_truthy (cursor a)
                  then ''No more tweets found on this page for the query: "'' @ query a @ ''".''
                  else ''No tweets found matching the search query: "'' @ query a @ ''".'')
                 @ ''\<newline>*Note: The API indicates more results might exist. Use this cursor for the next page: ''
                 @ c @ ''*''))
   \<and> (axios_get rt' (request_index (twitterApiKey rt') b) = Resolved d'
        \<and> field d' ''tweets'' = JArray []
      \<longrightarrow> run_index rt' b =
            Inr (''No tweets found matching the search query: "'' @ query b @ ''".''))\<close>
proof -
  have with_tweets:
    "run rt a = Inr (cap_output r)"
    if "axios_get rt (request (twitterApiKey rt) a) = Resolved d" "truthy d"
      "isArray (field d ''tweets'')" "elements (field d ''tweets'') \<noteq> []" "report a d = Inr r"
    using that by (simp add: run_def run_try_report)
  have with_tweets_index:
    "run_index rt' b = Inr (cap_output r')"
    if "axios_get rt' (request_index (twitterApiKey rt') b) = Resolved d'" "truthy d'"
      "isArray (field d' ''tweets'')" "elements (field d' ''tweets'') \<noteq> []"
      "report_index b d' = Inr r'"
    using that by (simp add: run_index_def run_index_try_report)
  show ?thesis
    using with_tweets with_tweets_index
    by (simp add: cap_output_def maxTotalOutputLength_def)
       (simp add: run_def run_index_def run_try_empty_page run_index_try_empty_page)
qed

theorem output_length_cap_witness:
  \<open>run (sample_runtime (Resolved one_tweet_page))
       \<lparr>query = long_query, queryType = Latest, cursor = None\<rparr> =
     Inr (''**Search Results for Query "'' @ replicate 24972 (CHR ''q'')
          @ ''\<newline>... [Total output truncated due to length limit]'')
   \<and> run_index (sample_runtime (Resolved one_tweet_page)) \<lparr>query = ''AI'', queryType = Top\<rparr> =
     Inr ''**Search Results for Query "AI" (Type: Top):**\<newline>\<newline>1. **Author:** @Unknown User\<newline>   **ID:** 1\<newline>   **Text:** \<newline>   **Created:** undefined\<newline>   **Link:** undefined\<newline>   **Stats:** Likes: 0, Retweets: 0, Replies: 0, Views: 0\<newline>\<newline>''
   \<and> run (sample_runtime (Resolved (JObject [(''tweets'', JArray [])])))
       \<lparr>query = long_query, queryType = Latest, cursor = None\<rparr> =
     Inr (''No tweets found matching the search query: "'' @ long_query
          @ ''".\<newline>*Note: End of results.*'')\<close>
  using output_length_cap [where rt = "sample_runtime (Resolved one_tweet_page)"
      and a = "\<lparr>query = long_query, queryType = Latest, cursor = None\<rparr>"
      and d = one_tweet_page
      and rt' = "sample_runtime (Resolved one_tweet_page)"
      and b = "\<lparr>query = ''AI'', queryType = Top\<rparr>"
      and d' = one_tweet_page]
    output_length_cap [where rt = "sample_runtime (Resolved (JObject [(''tweets'', JArray [])]))"
      and a = "\<lparr>query = long_query, queryType = Latest, cursor = None\<rparr>"
      and d = "JObject [(''tweets'', JArray [])]"]
  by (simp add: report_long_query report_index_one_tweet)

text \<open>
  The claim as stated fails on a page without tweets: for a query of 25,000 characters
  the returned report is longer than 25,000 characters and is not cut, in both handlers.
\<close>

theorem output_length_cap_counterexample:
  \<open>run (sample_runtime (Resolved (JObject [(''tweets'', JArray [])])))
       \<lparr>query = long_query, queryType = Latest, cursor = None\<rparr> =
     Inr (''No tweets found matching the search query: "'' @ long_query
          @ ''".\<newline>*Note: End of results.*'')
   \<and> 25000 < length (''No tweets found matching the search query: "'' @ long_query
          @ ''".\<newline>*Note: End of results.*'')
   \<and> run_index (sample_runtime (Resolved (JObject [(''tweets'', JArray [])])))
       \<lparr>query = long_query, queryType = Latest\<rparr> =
     Inr (''No tweets found matching the search query: "'' @ long_query @ ''".'')
   \<and> 25000 < length (''No tweets found matching the search query: "'' @ long_query @ ''".'')\<close>
  by (simp add: run_def run_index_def run_try_empty_page run_index_try_empty_page)

section \<open>A response without a sequence of tweets\<close>

lemma run_try_shape_error:
  "\<not> truthy d \<or> \<not> isArray (field d ''tweets'') \<Longrightarrow>
   run_try a d =
     then_do (to_string (or_else (or_else (field d ''message'') (field d ''msg''))
                (JString ''Unknown API error or invalid data structure (missing tweets array).'')))
       (\<lambda>m. Inr (''Error: Failed to fetch tweets. API Response: '' @ m))"
  by (auto simp add: run_try_def)

lemma run_index_try_shape_error:
  "\<not> truthy d \<or> \<not> isArray (field d ''tweets'') \<Longrightarrow>
   run_index_try a d =
     then_do (to_string (or_else (or_else (field d ''message'') (field d ''msg''))
                (JString ''Unknown API error or invalid data structure (missing tweets array).'')))
       (\<lambda>m. Inr (''Error: Failed to fetch tweets. API Response: '' @ m))"
  by (auto simp add: run_index_try_def)

lemma digits_42: "digits 42 = ''42''"
  by code_simp

lemma run_shape_error:
  \<open>axios_get rt (request (twitterApiKey rt) a) = Resolved d \<Longrightarrow>
   \<not> truthy d \<or> \<not> isArray (field d ''tweets'') \<Longrightarrow>
   run rt a =
     (case to_string (or_else (or_else (field d ''message'') (field d ''msg''))
             (JString ''Unknown API error or invalid data structure (missing tweets array).'')) of
        Inr m \<Rightarrow> Inr (''Error: Failed to fetch tweets. API Response: '' @ m)
      | Inl e \<Rightarrow> Inr (''Error: An unexpected error occurred while searching tweets: ''
                     @ type_error_message rt e))\<close>
  by (simp add: run_def run_try_shape_error run_catch_def split: sum.splits)

lemma run_index_shape_error:
  \<open>axios_get rt (request_index (twitterApiKey rt) b) = Resolved d \<Longrightarrow>
   \<not> truthy d \<or> \<not> isArray (field d ''tweets'') \<Longrightarrow>
   run_index rt b =
     (case to_string (or_else (or_else (field d ''message'') (field d ''msg''))
             (JString ''Unknown API error or invalid data structure (missing tweets array).'')) of
        Inr m \<Rightarrow> Inr (''Error: Failed to fetch tweets. API Response: '' @ m)
      | Inl e \<Rightarrow> Inr (''Error: An unexpected error occurred while searching tweets: ''
                     @ type_error_message rt e))\<close>
  by (simp add: run_index_def run_index_try_shape_error run_index_catch_def split: sum.splits)

text \<open>
  C8, as amended. When the payload is falsy or its \<open>tweets\<close> is not an array, the handler
  takes the provider's \<open>message\<close> if it is truthy, else its \<open>msg\<close> if that is truthy, else
  the generic phrase, and returns "Error: Failed to fetch tweets. API Response: " followed
  by that value as ToString renders it: a string as it is, any other value in its
  JavaScript rendering. When the value has no string (an object with a property of its
  own named \<open>toString\<close>), the TypeError is caught and the handler returns the
  unexpected-error message instead. Either string is the whole result: nothing of a tweet
  is in it. Both handlers do the same.

  Before it builds the string, this branch logs the value and the payload with
  \<open>console.error\<close>, whose first argument, a format string, contains the query. A format
  specifier of the query that asks for a number converts a logged value and throws if the
  value cannot be converted; the results with the shape-error message are therefore
  stated for a query without a percent sign, or a payload that ToString can render.
\<close>

theorem shape_error_message:
  \<open>(axios_get rt (request (twitterApiKey rt) a) = Resolved d
      \<and> (\<not> truthy d \<or> \<not> isArray (field d ''tweets''))
    \<longrightarrow>
      ((CHR ''%'' \<notin> set (query a) \<or> (\<exists>s. to_string d = Inr s))
         \<and> field d ''message'' = JString m \<and> m \<noteq> []
       \<longrightarrow> run rt a = Inr (''Error: Failed to fetch tweets. API Response: '' @ m))
    \<and> ((CHR ''%'' \<notin> set (query a) \<or> (\<exists>s. to_string d = Inr s))
         \<and> \<not> truthy (field d ''message'') \<and> field d ''msg'' = JString m \<and> m \<noteq> []
       \<longrightarrow> run rt a = Inr (''Error: Failed to fetch tweets. API Response: '' @ m))
    \<and> ((CHR ''%'' \<notin> set (query a) \<or> (\<exists>s. to_string d = Inr s))
         \<and> \<not> truthy (field d ''message'') \<and> \<not> truthy (field d ''msg'')
       \<longrightarrow> run rt a =
             Inr ''Error: Failed to fetch tweets. API Response: Unknown API error or invalid data structure (missing tweets array).'')
    \<and> ((CHR ''%'' \<notin> set (query a) \<or> (\<exists>s. to_string d = Inr s))
         \<and> truthy (field d ''message'') \<and> to_string (field d ''message'') = Inr m
       \<longrightarrow> run rt a = Inr (''Error: Failed to fetch tweets. API Response: '' @ m))
    \<and> ((CHR ''%'' \<notin> set (query a) \<or> (\<exists>s. to_string d = Inr s))
         \<and> \<not> truthy (field d ''message'') \<and> truthy (field d ''msg'')
         \<and> to_string (field d ''msg'') = Inr m
       \<longrightarrow> run rt a = Inr (''Error: Failed to fetch tweets. API Response: '' @ m))
    \<and> (truthy (field d ''message'') \<and> to_string (field d ''message'') = Inl e
       \<longrightarrow> run rt a =
             Inr (''Error: An unexpected error occurred while searching tweets: ''
                  @ type_error_message rt e))
    \<and> (\<not> truthy (field d ''message'') \<and> truthy (field d ''msg'')
         \<and> to_string (field d ''msg'') = Inl e
       \<longrightarrow> run rt a =
             Inr (''Error: An unexpected error occurred while searching tweets: ''
                  @ type_error_message rt e)))
   \<and> (axios_get rt' (request_index (twitterApiKey rt') b) = Resolved d'
      \<and> (\<not> truthy d' \<or> \<not> isArray (field d' ''tweets''))
    \<longrightarrow>
      ((CHR ''%'' \<notin> set (query b) \<or> (\<exists>s. to_string d' = Inr s))
         \<and> field d' ''message'' = JString m' \<and> m' \<noteq> []
       \<longrightarrow> run_index rt' b = Inr (''Error: Failed to fetch tweets. API Response: '' @ m'))
    \<and> ((CHR ''%'' \<notin> set (query b) \<or> (\<exists>s. to_string d' = Inr s))
         \<and> \<not> truthy (field d' ''message'') \<and> field d' ''msg'' = JString m' \<and> m' \<noteq> []
       \<longrightarrow> run_index rt' b = Inr (''Error: Failed to fetch tweets. API Response: '' @ m'))
    \<and> ((CHR ''%'' \<notin> set (query b) \<or> (\<exists>s. to_string d' = Inr s))
         \<and> \<not> truthy (field d' ''message'') \<and> \<not> truthy (field d' ''msg'')
       \<longrightarrow> run_index rt' b =
             Inr ''Error: Failed to fetch tweets. API Response: Unknown API error or invalid data structure (missing tweets array).'')
    \<and> ((CHR ''%'' \<notin> set (query b) \<or> (\<exists>s. to_string d' = Inr s))
         \<and> truthy (field d' ''message'') \<and> to_string (field d' ''message'') = Inr m'
       \<longrightarrow> run_index rt' b = Inr (''Error: Failed to fetch tweets. API Response: '' @ m'))
    \<and> ((CHR ''%'' \<notin> set (query b) \<or> (\<exists>s. to_string d' = Inr s))
         \<and> \<not> truthy (field d' ''message'') \<and> truthy (field d' ''msg'')
         \<and> to_string (field d' ''msg'') = Inr m'
       \<longrightarrow> run_index rt' b = Inr (''Error: Failed to fetch tweets. API Response: '' @ m'))
    \<and> (truthy (field d' ''message'') \<and> to_string (field d' ''message'') = Inl e'
       \<longrightarrow> run_index rt' b =
             Inr (''Error: An unexpected error occurred while searching tweets: ''
                  @ type_error_message rt' e'))
    \<and> (\<not> truthy (field d' ''message'') \<and> truthy (field d' ''msg'')
         \<and> to_string (field d' ''msg'') = Inl e'
       \<longrightarrow> run_index rt' b =
             Inr (''Error: An unexpected error occurred while searching tweets: ''
                  @ type_error_message rt' e')))\<close>
proof (intro conjI impI)
qed (simp_all add: run_shape_error run_index_shape_error or_else_def)

theorem shape_error_message_witness:
  \<open>run (sample_runtime (Resolved (JObject [(''message'', JString ''Invalid API key'')])))
       \<lparr>query = ''100% AI'', queryType = Latest, cursor = None\<rparr> =
     Inr ''Error: Failed to fetch tweets. API Response: Invalid API key''
   \<and> run (sample_runtime (Resolved (JObject [(''tweets'', JString ''none''), (''msg'', JString ''quota'')])))
       \<lparr>query = ''AI'', queryType = Latest, cursor = None\<rparr> =
     Inr ''Error: Failed to fetch tweets. API Response: quota''
   \<and> run (sample_runtime (Resolved (JObject [(''message'', JNumber 42)])))
       \<lparr>query = ''AI'', queryType = Latest, cursor = None\<rparr> =
     Inr ''Error: Failed to fetch tweets. API Response: 42''
   \<and> run (sample_runtime (Resolved (JObject [(''msg'', JObject [(''toString'', JNumber 1)])])))
       \<lparr>query = ''AI'', queryType = Latest, cursor = None\<rparr> =
     Inr ''Error: An unexpected error occurred while searching tweets: TypeError''
   \<and> run_index (sample_runtime (Resolved JNull)) \<lparr>query = ''AI'', queryType = Latest\<rparr> =
     Inr ''Error: Failed to fetch tweets. API Response: Unknown API error or invalid data structure (missing tweets array).''\<close>
  using shape_error_message [where rt = "sample_runtime (Resolved (JObject [(''message'', JString ''Invalid API key'')]))"
      and a = "\<lparr>query = ''100% AI'', queryType = Latest, cursor = None\<rparr>"
      and d = "JObject [(''message'', JString ''Invalid API key'')]"
      and m = "''Invalid API key''"
      and rt' = "sample_runtime (Resolved JNull)"
      and b = "\<lparr>query = ''AI'', queryType = Latest\<rparr>"
      and d' = JNull]
    shape_error_message [where rt = "sample_runtime (Resolved (JObject [(''tweets'', JString ''none''), (''msg'', JString ''quota'')]))"
      and a = "\<lparr>query = ''AI'', queryType = Latest, cursor = None\<rparr>"
      and d = "JObject [(''tweets'', JString ''none''), (''msg'', JString ''quota'')]"
      and m = "''quota''"]
    shape_error_message [where rt = "sample_runtime (Resolved (JObject [(''message'', JNumber 42)]))"
      and a = "\<lparr>query = ''AI'', queryType = Latest, cursor = None\<rparr>"
      and d = "JObject [(''message'', JNumber 42)]"
      and m = "''42''"]
    shape_error_message [where rt = "sample_runtime (Resolved (JObject [(''msg'', JObject [(''toString'', JNumber 1)])]))"
      and a = "\<lparr>query = ''AI'', queryType = Latest, cursor = None\<rparr>"
      and d = "JObject [(''msg'', JObject [(''toString'', JNumber 1)])]"
      and e = NoPrimitive]
  by (simp add: digits_42)

text \<open>
  The claim as stated fails when the provider's \<open>message\<close> is an object that has a
  property named \<open>toString\<close>: the field is present, and both handlers return the
  unexpected-error message, which does not embed it.
\<close>

theorem shape_error_message_counterexample:
  \<open>run (sample_runtime (Resolved (JObject [(''message'', JObject [(''toString'', JNumber 1)])])))
       \<lparr>query = ''AI'', queryType = Latest, cursor = None\<rparr> =
     Inr ''Error: An unexpected error occurred while searching tweets: TypeError''
   \<and> run_index (sample_runtime (Resolved (JObject [(''message'', JObject [(''toString'', JNumber 1)])])))
       \<lparr>query = ''AI'', queryType = Latest\<rparr> =
     Inr ''Error: An unexpected error occurred while searching tweets: TypeError''
   \<and> \<not> prefix ''Error: Failed to fetch tweets. API Response: ''
         ''Error: An unexpected error occurred while searching tweets: TypeError''\<close>
proof (intro conjI)
  show \<open>run (sample_runtime (Resolved (JObject [(''message'', JObject [(''toString'', JNumber 1)])])))
       \<lparr>query = ''AI'', queryType = Latest, cursor = None\<rparr> =
     Inr ''Error: An unexpected error occurred while searching tweets: TypeError''\<close>
    by code_simp
  show \<open>run_index (sample_runtime (Resolved (JObject [(''message'', JObject [(''toString'', JNumber 1)])])))
       \<lparr>query = ''AI'', queryType = Latest\<rparr> =
     Inr ''Error: An unexpected error occurred while searching tweets: TypeError''\<close>
    by code_simp
  show \<open>\<not> prefix ''Error: Failed to fetch tweets. API Response: ''
         ''Error: An unexpected error occurred while searching tweets: TypeError''\<close>
    by simp
qed

section \<open>The block of one tweet\<close>









section \<open>The translation of errors\<close>

lemma run_rejected:
  "axios_get rt (request (twitterApiKey rt) a) = Rejected e \<Longrightarrow> run rt a = run_catch rt a e"
  by (simp add: run_def)

lemma run_index_rejected:
  "axios_get rt (request_index (twitterApiKey rt) a) = Rejected e
   \<Longrightarrow> run_index rt a = run_index_catch rt a e"
  by (simp add: run_index_def)

lemma run_catch_auth:
  "s = 401 \<or> s = 403 \<Longrightarrow>
   run_catch rt a (AxiosError (Some \<lparr>status = s, data = body\<rparr>)) =
     Inr (''Error: Authentication failed. Please check if the TWITTER_API_IO_KEY is correct and valid. (Status: ''
          @ digits s @ '')'')"
  by (auto simp add: run_catch_def)

lemma run_catch_bad_request:
  \<open>to_string (apiMessage (Some \<lparr>status = 400, data = body\<rparr>)) = Inr m \<Longrightarrow>
   run_catch rt a (AxiosError (Some \<lparr>status = 400, data = body\<rparr>)) =
     Inr (''Error: Bad request. ''
          @ (if cursor_truthy (cursor a)
             then ''The search query "'' @ query a @ ''" or the provided cursor might be invalid.''
             else ''The search query "'' @ query a @ ''" might be invalid or improperly formatted.'')
          @ '' Please check the query syntax and cursor value. (Status: 400, Message: ''
          @ m @ '')'')\<close>
  by (simp add: run_catch_def)

lemma run_catch_not_found:
  "run_catch rt a (AxiosError (Some \<lparr>status = 404, data = body\<rparr>)) =
     Inr ''Error: API endpoint not found or unavailable. Please check the API configuration. (Status: 404)''"
  by (simp add: run_catch_def)

lemma digits_429: "digits 429 = ''429''"
  by code_simp

lemma run_catch_rate_limit:
  "run_catch rt a (AxiosError (Some \<lparr>status = 429, data = body\<rparr>)) =
     Inr ''Error: API rate limit exceeded. Please wait and try again later. (Status: 429)''"
  by (simp add: run_catch_def digits_429)

lemma run_catch_other_status:
  "s \<noteq> 400 \<Longrightarrow> s \<noteq> 401 \<Longrightarrow> s \<noteq> 403 \<Longrightarrow> s \<noteq> 404 \<Longrightarrow> s \<noteq> 429 \<Longrightarrow>
   to_string (apiMessage (Some \<lparr>status = s, data = body\<rparr>)) = Inr m \<Longrightarrow>
   run_catch rt a (AxiosError (Some \<lparr>status = s, data = body\<rparr>)) =
     Inr (''Error: An API error occurred. Status: '' @ (if s = 0 then ''N/A'' else digits s)
          @ '', Message: '' @ m)"
  by (simp add: run_catch_def)

lemma run_catch_no_response:
  "run_catch rt a (AxiosError None) =
     Inr ''Error: An API error occurred. Status: N/A, Message: No specific message from API.''"
  by (simp add: run_catch_def apiMessage_def or_else_def)

lemma run_catch_other_error:
  "run_catch rt a (Error msg) =
     Inr (''Error: An unexpected error occurred while searching tweets: '' @ msg)"
  by (simp add: run_catch_def)

lemma run_index_catch_bad_request:
  \<open>to_string (apiMessage (Some \<lparr>status = 400, data = body\<rparr>)) = Inr m \<Longrightarrow>
   run_index_catch rt b (AxiosError (Some \<lparr>status = 400, data = body\<rparr>)) =
     Inr (''Error: Bad request. The search query "'' @ query b
          @ ''" might be invalid or improperly formatted. Please check the query syntax. (Status: 400, Message: ''
          @ m @ '')'')\<close>
  by (simp add: run_index_catch_def)

lemma run_index_catch_as_run_catch:
  "(\<And>r. e = AxiosError (Some r) \<Longrightarrow> status r \<noteq> 400) \<Longrightarrow>
   run_index_catch rt b e = run_catch rt a e"
  by (cases e) (auto simp add: run_index_catch_def run_catch_def Let_def)

lemma apiMessage_cases:
  "(field body ''msg'' = JString x \<and> x \<noteq> []
      \<longrightarrow> apiMessage (Some \<lparr>status = s, data = body\<rparr>) = JString x)
   \<and> (\<not> truthy (field body ''msg'') \<and> field body ''message'' = JString x \<and> x \<noteq> []
      \<longrightarrow> apiMessage (Some \<lparr>status = s, data = body\<rparr>) = JString x)
   \<and> (\<not> truthy (field body ''msg'') \<and> \<not> truthy (field body ''message'')
      \<longrightarrow> apiMessage (Some \<lparr>status = s, data = body\<rparr>)
          = JString ''No specific message from API.'')"
  by (simp add: apiMessage_def or_else_def)

lemma digits_401: "digits 401 = ''401''"
  by code_simp

lemma digits_500: "digits 500 = ''500''"
  by code_simp

text \<open>
  C4, as amended. An error that \<open>axios.isAxiosError\<close> recognises is translated by the
  status of its response alone: 401 and 403 give the authentication message, which names
  the credential; 400 the bad-request message, whose reason names the cursor exactly when
  a non-empty cursor was given; 404 the endpoint message; 429 the rate-limit message; any
  other status the generic message with the status and the provider's message (\<open>msg\<close>,
  then \<open>message\<close>, then a fixed phrase). Such an error with no response at all, which is
  how axios reports a failed connection, has no status and gets the generic message with
  \<open>N/A\<close> and the fixed phrase. Only an error that axios does not recognise gets the
  unexpected-error message with the error's own text. The basic handler does the same,
  but its bad-request message never names a cursor.
\<close>

theorem error_translation:
  \<open>(axios_get rt (request (twitterApiKey rt) a) = Rejected e
     \<longrightarrow>
       (e = AxiosError (Some \<lparr>status = s, data = body\<rparr>) \<and> (s = 401 \<or> s = 403)
        \<longrightarrow> run rt a =
              Inr (''Error: Authentication failed. Please check if the TWITTER_API_IO_KEY is correct and valid. (Status: ''
                   @ digits s @ '')''))
     \<and> (e = AxiosError (Some \<lparr>status = 400, data = body\<rparr>)
          \<and> to_string (apiMessage (Some \<lparr>status = 400, data = body\<rparr>)) = Inr m
        \<longrightarrow> run rt a =
              Inr (''Error: Bad request. ''
                   @ (if cursor_truthy (cursor a)
                      then ''The search query "'' @ query a
                           @ ''" or the provided cursor might be invalid.''
                      else ''The search query "'' @ query a
                           @ ''" might be invalid or improperly formatted.'')
                   @ '' Please check the query syntax and cursor value. (Status: 400, Message: ''
                   @ m @ '')''))
     \<and> (e = AxiosError (Some \<lparr>status = 404, data = body\<rparr>)
        \<longrightarrow> run rt a =
              Inr ''Error: API endpoint not found or unavailable. Please check the API configuration. (Status: 404)'')
     \<and> (e = AxiosError (Some \<lparr>status = 429, data = body\<rparr>)
        \<longrightarrow> run rt a =
              Inr ''Error: API rate limit exceeded. Please wait and try again later. (Status: 429)'')
     \<and> (e = AxiosError (Some \<lparr>status = s, data = body\<rparr>)
          \<and> s \<noteq> 400 \<and> s \<noteq> 401 \<and> s \<noteq> 403 \<and> s \<noteq> 404 \<and> s \<noteq> 429
          \<and> to_string (apiMessage (Some \<lparr>status = s, data = body\<rparr>)) = Inr m
        \<longrightarrow> run rt a =
              Inr (''Error: An API error occurred. Status: ''
                   @ (if s = 0 then ''N/A'' else digits s) @ '', Message: '' @ m))
     \<and> (e = AxiosError None
        \<longrightarrow> run rt a =
              Inr ''Error: An API error occurred. Status: N/A, Message: No specific message from API.'')
     \<and> (e = Error msg
        \<longrightarrow> run rt a =
              Inr (''Error: An unexpected error occurred while searching tweets: '' @ msg)))
   \<and> (field body ''msg'' = JString x \<and> x \<noteq> []
        \<longrightarrow> apiMessage (Some \<lparr>status = s, data = body\<rparr>) = JString x)
   \<and> (\<not> truthy (field body ''msg'') \<and> field body ''message'' = JString x \<and> x \<noteq> []
        \<longrightarrow> apiMessage (Some \<lparr>status = s, data = body\<rparr>) = JString x)
   \<and> (\<not> truthy (field body ''msg'') \<and> \<not> truthy (field body ''message'')
        \<longrightarrow> apiMessage (Some \<lparr>status = s, data = body\<rparr>)
            = JString ''No specific message from API.'')
   \<and> (axios_get rt' (request_index (twitterApiKey rt') b) = Rejected e'
     \<longrightarrow>
       (e' = AxiosError (Some \<lparr>status = 400, data = body\<rparr>)
          \<and> to_string (apiMessage (Some \<lparr>status = 400, data = body\<rparr>)) = Inr m
        \<longrightarrow> run_index rt' b =
              Inr (''Error: Bad request. The search query "'' @ query b
                   @ ''" might be invalid or improperly formatted. Please check the query syntax. (Status: 400, Message: ''
                   @ m @ '')''))
     \<and> ((\<forall>r. e' = AxiosError (Some r) \<longrightarrow> status r \<noteq> 400)
        \<longrightarrow> run_index rt' b = run_catch rt' a e'))\<close>
  using apiMessage_cases [of body x s]
  by (auto simp add: run_rejected run_index_rejected run_catch_auth run_catch_bad_request
        run_catch_not_found run_catch_rate_limit run_catch_other_status
        run_catch_no_response run_catch_other_error run_index_catch_bad_request
        run_index_catch_as_run_catch)

theorem error_translation_witness:
  \<open>run (sample_runtime (Rejected (AxiosError (Some \<lparr>status = 401, data = JNull\<rparr>))))
       \<lparr>query = ''AI'', queryType = Latest, cursor = None\<rparr> =
     Inr ''Error: Authentication failed. Please check if the TWITTER_API_IO_KEY is correct and valid. (Status: 401)''
   \<and> run (sample_runtime (Rejected (AxiosError
            (Some \<lparr>status = 400, data = JObject [(''msg'', JString ''bad cursor'')]\<rparr>))))
       \<lparr>query = ''AI'', queryType = Latest, cursor = Some ''abc''\<rparr> =
     Inr ''Error: Bad request. The search query "AI" or the provided cursor might be invalid. Please check the query syntax and cursor value. (Status: 400, Message: bad cursor)''
   \<and> run (sample_runtime (Rejected (AxiosError
            (Some \<lparr>status = 500, data = JObject [(''message'', JString ''boom'')]\<rparr>))))
       \<lparr>query = ''AI'', queryType = Latest, cursor = None\<rparr> =
     Inr ''Error: An API error occurred. Status: 500, Message: boom''
   \<and> run (sample_runtime (Rejected (Error ''socket hang up'')))
       \<lparr>query = ''AI'', queryType = Latest, cursor = None\<rparr> =
     Inr ''Error: An unexpected error occurred while searching tweets: socket hang up''
   \<and> run_index (sample_runtime (Rejected (AxiosError
            (Some \<lparr>status = 400, data = JObject [(''msg'', JString ''bad query'')]\<rparr>))))
       \<lparr>query = ''AI'', queryType = Latest\<rparr> =
     Inr ''Error: Bad request. The search query "AI" might be invalid or improperly formatted. Please check the query syntax. (Status: 400, Message: bad query)''\<close>
  using
    error_translation [where rt = "sample_runtime (Rejected (AxiosError (Some \<lparr>status = 401, data = JNull\<rparr>)))"
      and a = "\<lparr>query = ''AI'', queryType = Latest, cursor = None\<rparr>"
      and e = "AxiosError (Some \<lparr>status = 401, data = JNull\<rparr>)" and s = 401 and body = JNull]
    error_translation [where rt = "sample_runtime (Rejected (AxiosError
            (Some \<lparr>status = 400, data = JObject [(''msg'', JString ''bad cursor'')]\<rparr>)))"
      and a = "\<lparr>query = ''AI'', queryType = Latest, cursor = Some ''abc''\<rparr>"
      and e = "AxiosError (Some \<lparr>status = 400, data = JObject [(''msg'', JString ''bad cursor'')]\<rparr>)"
      and body = "JObject [(''msg'', JString ''bad cursor'')]" and m = "''bad cursor''"]
    error_translation [where rt = "sample_runtime (Rejected (AxiosError
            (Some \<lparr>status = 500, data = JObject [(''message'', JString ''boom'')]\<rparr>)))"
      and a = "\<lparr>query = ''AI'', queryType = Latest, cursor = None\<rparr>"
      and e = "AxiosError (Some \<lparr>status = 500, data = JObject [(''message'', JString ''boom'')]\<rparr>)"
      and s = 500 and body = "JObject [(''message'', JString ''boom'')]" and m = "''boom''"]
    error_translation [where rt = "sample_runtime (Rejected (Error ''socket hang up''))"
      and a = "\<lparr>query = ''AI'', queryType = Latest, cursor = None\<rparr>"
      and e = "Error ''socket hang up''" and msg = "''socket hang up''"]
    error_translation [where rt' = "sample_runtime (Rejected (AxiosError
            (Some \<lparr>status = 400, data = JObject [(''msg'', JString ''bad query'')]\<rparr>)))"
      and b = "\<lparr>query = ''AI'', queryType = Latest\<rparr>"
      and e' = "AxiosError (Some \<lparr>status = 400, data = JObject [(''msg'', JString ''bad query'')]\<rparr>)"
      and body = "JObject [(''msg'', JString ''bad query'')]" and m = "''bad query''"]
  by (simp add: digits_401 digits_500 apiMessage_def or_else_def)

text \<open>
  The claim as stated fails for a failed connection, an axios error without a response:
  both handlers answer with the generic API-error message, not with the unexpected-error
  message, and the text of the failure is not in it.
\<close>

theorem error_translation_counterexample:
  \<open>run (sample_runtime (Rejected (AxiosError None)))
       \<lparr>query = ''AI'', queryType = Latest, cursor = None\<rparr> =
     Inr ''Error: An API error occurred. Status: N/A, Message: No specific message from API.''
   \<and> run_index (sample_runtime (Rejected (AxiosError None))) \<lparr>query = ''AI'', queryType = Latest\<rparr> =
     Inr ''Error: An API error occurred. Status: N/A, Message: No specific message from API.''
   \<and> \<not> prefix ''Error: An unexpected error occurred while searching tweets: ''
         ''Error: An API error occurred. Status: N/A, Message: No specific message from API.''\<close>
proof (intro conjI)
  show \<open>run (sample_runtime (Rejected (AxiosError None)))
       \<lparr>query = ''AI'', queryType = Latest, cursor = None\<rparr> =
     Inr ''Error: An API error occurred. Status: N/A, Message: No specific message from API.''\<close>
    by code_simp
  show \<open>run_index (sample_runtime (Rejected (AxiosError None))) \<lparr>query = ''AI'', queryType = Latest\<rparr> =
     Inr ''Error: An API error occurred. Status: N/A, Message: No specific message from API.''\<close>
    by code_simp
  show \<open>\<not> prefix ''Error: An unexpected error occurred while searching tweets: ''
         ''Error: An API error occurred. Status: N/A, Message: No specific message from API.''\<close>
    by simp
qed

section \<open>The note on pagination\<close>

lemma report_Inr:
  assumes "report a d = Inr r"
  shows \<open>\<exists>body. forEach_tweets 0 (elements (field d ''tweets'')) (header a) = Inr body
      \<and> (if truthy (field d ''has_next_page'') \<and> truthy (field d ''next_cursor'')
         then \<exists>c. to_string (field d ''next_cursor'') = Inr c
                \<and> r = body
                      @ ''\<newline>*Note: More results available. Use this cursor for the next page: ''
                      @ c @ ''*\<newline>''
         else r = body @ ''\<newline>*Note: End of results.*\<newline>'')\<close>
  using assms
  by (auto simp add: report_def Let_def then_do_Inr_iff split: if_splits)

lemma report_index_Inr:
  assumes "report_index b d = Inr r"
  shows \<open>\<exists>body. forEach_tweets 0 (elements (field d ''tweets'')) (header_index b) = Inr body
      \<and> r = body
            @ (if truthy (field d ''has_next_page'') \<and> truthy (field d ''next_cursor'')
               then ''*Note: More results may be available (API indicates next page exists).*\<newline>''
               else '''')\<close>
  using assms
  by (auto simp add: report_index_def Let_def then_do_Inr_iff split: if_splits)

lemma cap_output_short: "length r \<le> 25000 \<Longrightarrow> cap_output r = r"
  by (simp add: cap_output_def maxTotalOutputLength_def)

text \<open>
  C2, as amended. In the handler with pagination, the report of a page with tweets ends,
  before the safeguard on its length, with exactly one of two notes: the note with the
  provider's next cursor when \<open>has_next_page\<close> and \<open>next_cursor\<close> are both truthy, the
  note "End of results." otherwise. The handler returns this report, note included,
  whenever it has at most 25,000 characters. In the basic handler the report ends with a
  note that a next page exists, without the cursor, when both fields are truthy, and with
  the last block otherwise.
\<close>

theorem pagination_footer:
  \<open>(report a d = Inr r
     \<longrightarrow> (\<exists>body. forEach_tweets 0 (elements (field d ''tweets'')) (header a) = Inr body
          \<and> (if truthy (field d ''has_next_page'') \<and> truthy (field d ''next_cursor'')
             then \<exists>c. to_string (field d ''next_cursor'') = Inr c
                    \<and> r = body
                          @ ''\<newline>*Note: More results available. Use this cursor for the next page: ''
                          @ c @ ''*\<newline>''
             else r = body @ ''\<newline>*Note: End of results.*\<newline>'')))
   \<and> (axios_get rt (request (twitterApiKey rt) a) = Resolved d \<and> truthy d
        \<and> isArray (field d ''tweets'') \<and> elements (field d ''tweets'') \<noteq> []
        \<and> report a d = Inr r \<and> length r \<le> 25000
      \<longrightarrow> run rt a = Inr r)
   \<and> (report_index b d' = Inr r'
      \<longrightarrow> (\<exists>body. forEach_tweets 0 (elements (field d' ''tweets'')) (header_index b) = Inr body
           \<and> r' = body
                  @ (if truthy (field d' ''has_next_page'') \<and> truthy (field d' ''next_cursor'')
                     then ''*Note: More results may be available (API indicates next page exists).*\<newline>''
                     else '''')))\<close>
  using report_Inr [of a d r] report_index_Inr [of b d' r']
    run_resolved [OF _ run_try_report, of rt a d r]
  by (simp add: cap_output_short)

lemma report_next_page:
  \<open>report \<lparr>query = ''AI'', queryType = Latest, cursor = None\<rparr> next_page =
     Inr ''**Search Results for Query "AI" (Type: Latest) - First Page:**\<newline>\<newline>1. **Author:** @Unknown User\<newline>   **ID:** 1\<newline>   **Text:** \<newline>   **Created:** undefined\<newline>   **Link:** undefined\<newline>   **Stats:** Likes: 0, Retweets: 0, Replies: 0, Views: 0\<newline>\<newline>\<newline>*Note: More results available. Use this cursor for the next page: abc*\<newline>''\<close>
  by (simp add: report_def header_def tweet_block_id_only)

lemma report_index_next_page:
  \<open>report_index \<lparr>query = ''AI'', queryType = Latest\<rparr> next_page =
     Inr ''**Search Results for Query "AI" (Type: Latest):**\<newline>\<newline>1. **Author:** @Unknown User\<newline>   **ID:** 1\<newline>   **Text:** \<newline>   **Created:** undefined\<newline>   **Link:** undefined\<newline>   **Stats:** Likes: 0, Retweets: 0, Replies: 0, Views: 0\<newline>\<newline>*Note: More results may be available (API indicates next page exists).*\<newline>''\<close>
  by (simp add: report_index_def header_index_def tweet_block_id_only)

theorem pagination_footer_witness:
  \<open>run (sample_runtime (Resolved next_page)) \<lparr>query = ''AI'', queryType = Latest, cursor = None\<rparr> =
     Inr ''**Search Results for Query "AI" (Type: Latest) - First Page:**\<newline>\<newline>1. **Author:** @Unknown User\<newline>   **ID:** 1\<newline>   **Text:** \<newline>   **Created:** undefined\<newline>   **Link:** undefined\<newline>   **Stats:** Likes: 0, Retweets: 0, Replies: 0, Views: 0\<newline>\<newline>\<newline>*Note: More results available. Use this cursor for the next page: abc*\<newline>''
   \<and> (\<exists>body.
        ''**Search Results for Query "AI" (Type: Latest) - First Page:**\<newline>\<newline>1. **Author:** @Unknown User\<newline>   **ID:** 1\<newline>   **Text:** \<newline>   **Created:** undefined\<newline>   **Link:** undefined\<newline>   **Stats:** Likes: 0, Retweets: 0, Replies: 0, Views: 0\<newline>\<newline>\<newline>*Note: More results available. Use this cursor for the next page: abc*\<newline>''
        = body @ ''\<newline>*Note: More results available. Use this cursor for the next page: abc*\<newline>'')
   \<and> (\<exists>body.
        ''**Search Results for Query "AI" (Type: Latest):**\<newline>\<newline>1. **Author:** @Unknown User\<newline>   **ID:** 1\<newline>   **Text:** \<newline>   **Created:** undefined\<newline>   **Link:** undefined\<newline>   **Stats:** Likes: 0, Retweets: 0, Replies: 0, Views: 0\<newline>\<newline>*Note: More results may be available (API indicates next page exists).*\<newline>''
        = body @ ''*Note: More results may be available (API indicates next page exists).*\<newline>'')\<close>
  using pagination_footer [where rt = "sample_runtime (Resolved next_page)"
      and a = "\<lparr>query = ''AI'', queryType = Latest, cursor = None\<rparr>" and d = next_page
      and b = "\<lparr>query = ''AI'', queryType = Latest\<rparr>" and d' = next_page,
      unfolded report_next_page report_index_next_page]
  by simp

lemma run_long_query:
  \<open>run (sample_runtime (Resolved one_tweet_page))
       \<lparr>query = long_query, queryType = Latest, cursor = None\<rparr> =
     Inr (''**Search Results for Query "'' @ replicate 24972 (CHR ''q'')
          @ ''\<newline>... [Total output truncated due to length limit]'')\<close>
  by (simp add: run_def run_try_def report_long_query cap_output_def maxTotalOutputLength_def)

lemma run_index_one_tweet:
  \<open>run_index (sample_runtime (Resolved one_tweet_page)) \<lparr>query = ''AI'', queryType = Top\<rparr> =
     Inr ''**Search Results for Query "AI" (Type: Top):**\<newline>\<newline>1. **Author:** @Unknown User\<newline>   **ID:** 1\<newline>   **Text:** \<newline>   **Created:** undefined\<newline>   **Link:** undefined\<newline>   **Stats:** Likes: 0, Retweets: 0, Replies: 0, Views: 0\<newline>\<newline>''\<close>
  by (simp add: run_index_def run_index_try_def report_index_one_tweet cap_output_def
        maxTotalOutputLength_def)

text \<open>
  The claim as stated fails twice. In the handler with pagination a report longer than
  25,000 characters is cut, and the returned string ends with the truncation notice, not
  with a pagination note. In the basic handler a page that is the last one gets no note.
\<close>

theorem pagination_footer_counterexample:
  \<open>run (sample_runtime (Resolved one_tweet_page))
       \<lparr>query = long_query, queryType = Latest, cursor = None\<rparr> =
     Inr (''**Search Results for Query "'' @ replicate 24972 (CHR ''q'')
          @ ''\<newline>... [Total output truncated due to length limit]'')
   \<and> \<not> suffix ''\<newline>*Note: End of results.*\<newline>''
         (''**Search Results for Query "'' @ replicate 24972 (CHR ''q'')
          @ ''\<newline>... [Total output truncated due to length limit]'')
   \<and> run_index (sample_runtime (Resolved one_tweet_page)) \<lparr>query = ''AI'', queryType = Top\<rparr> =
     Inr ''**Search Results for Query "AI" (Type: Top):**\<newline>\<newline>1. **Author:** @Unknown User\<newline>   **ID:** 1\<newline>   **Text:** \<newline>   **Created:** undefined\<newline>   **Link:** undefined\<newline>   **Stats:** Likes: 0, Retweets: 0, Replies: 0, Views: 0\<newline>\<newline>''
   \<and> \<not> suffix ''*Note: End of results.*\<newline>''
         ''**Search Results for Query "AI" (Type: Top):**\<newline>\<newline>1. **Author:** @Unknown User\<newline>   **ID:** 1\<newline>   **Text:** \<newline>   **Created:** undefined\<newline>   **Link:** undefined\<newline>   **Stats:** Likes: 0, Retweets: 0, Replies: 0, Views: 0\<newline>\<newline>''\<close>
  by (simp add: run_long_query run_index_one_tweet suffix_to_prefix)

section \<open>Exceptions that leave the handler\<close>

lemma run_returns_string_resolved:
  "axios_get rt (request (twitterApiKey rt) a) = Resolved d \<Longrightarrow> \<exists>s. run rt a = Inr s"
  by (simp add: run_def run_catch_def split: sum.splits)

lemma run_index_returns_string_resolved:
  "axios_get rt (request_index (twitterApiKey rt) b) = Resolved d \<Longrightarrow> \<exists>s. run_index rt b = Inr s"
  by (simp add: run_index_def run_index_catch_def split: sum.splits)

lemma run_returns_string_rejected:
  "axios_get rt (request (twitterApiKey rt) a) = Rejected e
   \<Longrightarrow> (\<And>r. e = AxiosError r \<Longrightarrow> \<exists>m. to_string (apiMessage r) = Inr m)
   \<Longrightarrow> \<exists>s. run rt a = Inr s"
  by (cases e) (auto simp add: run_def run_catch_def Let_def)

lemma run_index_returns_string_rejected:
  "axios_get rt (request_index (twitterApiKey rt) b) = Rejected e
   \<Longrightarrow> (\<And>r. e = AxiosError r \<Longrightarrow> \<exists>m. to_string (apiMessage r) = Inr m)
   \<Longrightarrow> \<exists>s. run_index rt b = Inr s"
  by (cases e) (auto simp add: run_index_def run_index_catch_def Let_def)

lemma run_throws:
  "axios_get rt (request (twitterApiKey rt) a) = Rejected (AxiosError (Some r))
   \<Longrightarrow> status r \<noteq> 401 \<Longrightarrow> status r \<noteq> 403 \<Longrightarrow> status r \<noteq> 404 \<Longrightarrow> status r \<noteq> 429
   \<Longrightarrow> to_string (apiMessage (Some r)) = Inl te
   \<Longrightarrow> run rt a = Inl te"
  by (simp add: run_def run_catch_def Let_def)

text \<open>
  C1. The handler does not always return a string. The provider answers with status 400
  (or 500) and a body whose message is an object that has a property named \<open>toString\<close>;
  the template literal of the \<open>catch\<close> block cannot convert it, the TypeError is thrown
  outside any \<open>try\<close>, and the promise of \<open>run\<close> rejects. The lemmas above give the
  rest: every resolved call, whatever the body, and every rejection whose message
  converts to a string end in a returned string.
\<close>

theorem catch_block_throws:
  \<open>run (sample_runtime (Rejected (AxiosError
          (Some \<lparr>status = 400, data = JObject [(''msg'', JObject [(''toString'', JNumber 1)])]\<rparr>))))
       \<lparr>query = ''AI'', queryType = Latest, cursor = None\<rparr> = Inl NoPrimitive
   \<and> run_index (sample_runtime (Rejected (AxiosError
          (Some \<lparr>status = 500, data = JObject [(''message'', JObject [(''toString'', JNumber 1)])]\<rparr>))))
       \<lparr>query = ''AI'', queryType = Latest\<rparr> = Inl NoPrimitive\<close>
  by code_simp

section \<open>Fields of a tweet that are absent\<close>

lemma count_fallback: "\<not> truthy v \<Longrightarrow> to_string (or_else v (JNumber 0)) = Inr ''0''"
  by (simp add: or_else_def digits_0)

lemma author_fallback:
  "\<not> truthy (field (field tweet ''author'') ''userName'') \<Longrightarrow>
   to_string (or_else (field (field tweet ''author'') ''userName'') (JString ''Unknown User''))
     = Inr ''Unknown User''"
  by (simp add: or_else_def)

lemma absent_field_undefined:
  "map_of kvs k = None \<Longrightarrow> to_string (field (JObject kvs) k) = Inr ''undefined''"
  by simp

text \<open>
  C9. The counts, the author and the text have fallbacks; \<open>createdAt\<close> and \<open>url\<close> have
  none. For a tweet that has only an id the report shows "Unknown User", an empty text
  and four zeros, but "undefined" for the creation time and for the link; when the two
  fields are \<open>null\<close> it shows "null".
\<close>

theorem absent_created_and_link:
  \<open>run (sample_runtime (Resolved one_tweet_page))
       \<lparr>query = ''AI'', queryType = Latest, cursor = None\<rparr> =
     Inr ''**Search Results for Query "AI" (Type: Latest) - First Page:**\<newline>\<newline>1. **Author:** @Unknown User\<newline>   **ID:** 1\<newline>   **Text:** \<newline>   **Created:** undefined\<newline>   **Link:** undefined\<newline>   **Stats:** Likes: 0, Retweets: 0, Replies: 0, Views: 0\<newline>\<newline>\<newline>*Note: End of results.*\<newline>''
   \<and> tweet_block 0 (JObject [(''id'', JString ''1''), (''author'', JNull), (''text'', JNull),
                               (''createdAt'', JNull), (''url'', JNull), (''likeCount'', JNull)]) =
     Inr ''1. **Author:** @Unknown User\<newline>   **ID:** 1\<newline>   **Text:** \<newline>   **Created:** null\<newline>   **Link:** null\<newline>   **Stats:** Likes: 0, Retweets: 0, Replies: 0, Views: 0\<newline>\<newline>''\<close>
  by code_simp

end
